theory Spec2Isabelle
  imports Main "HOL-Library.Word"
begin

chapter \<open>The probe of node-crawler: sessions, message handling and the crawler's loop\<close>

text \<open>
  A model of \<^verbatim>\<open>pkg/p2p/protocol.go\<close> and \<^verbatim>\<open>pkg/p2p/p2p.go\<close>: the handling of one
  inbound message (\<^verbatim>\<open>handleMsg\<close>), one session (\<^verbatim>\<open>handle\<close>), the shutdown of the
  backend and the crawler (\<^verbatim>\<open>Close\<close>, \<^verbatim>\<open>Stop\<close>) and the goroutine of \<^verbatim>\<open>Start\<close> that
  folds results into the catalogue. Each Go function is a function from the state it
  reads to its result and the state it leaves; errors and panics are values.
\<close>

section \<open>Wire data of the gossip protocol\<close>

text \<open>
  The probe speaks go-opera's gossip protocol. The types below are the ones
  \<^verbatim>\<open>pkg/p2p/protocol.go\<close> reads: \<^verbatim>\<open>idx.Epoch\<close> is a \<^verbatim>\<open>uint32\<close>,
  \<^verbatim>\<open>idx.Block\<close> a \<^verbatim>\<open>uint64\<close>, and \<^verbatim>\<open>hash.Event\<close> a 32-byte array, kept here
  as the 256-bit number its bytes spell in big-endian order.
\<close>

type_synonym idx_Epoch = "32 word"

type_synonym idx_Block = "64 word"

type_synonym hash_Event = "256 word"

text \<open>
  \<^verbatim>\<open>hash.Event.Epoch()\<close> of lachesis-base reads the first four bytes of the hash as a
  big-endian \<^verbatim>\<open>uint32\<close>: the top 32 bits of the 256-bit number.
\<close>

definition Event_Epoch :: "hash_Event \<Rightarrow> idx_Epoch" where
  "Event_Epoch h = ucast (drop_bit 224 h)"

record PeerProgress =
  Epoch :: idx_Epoch
  LastBlockIdx :: idx_Block
  LastBlockAtropos :: hash_Event

text \<open>An event payload travels as its encoded bytes; the probe only counts and logs them.\<close>

type_synonym EventPayload = "8 word list"

text \<open>
  Modelled from the spec: the declaration of \<^verbatim>\<open>dagChunk\<close> is not among the source
  files. A streamed chunk holds a list of event identifiers and a list of full event
  payloads; \<^verbatim>\<open>handleMsg\<close> reads the fields \<^verbatim>\<open>IDs\<close> and \<^verbatim>\<open>Events\<close> only.
\<close>

record dagChunk =
  IDs :: "hash_Event list"
  Events :: "EventPayload list"

text \<open>
  A message as \<^verbatim>\<open>p.rw.ReadMsg()\<close> delivers it: its code, its encoded size
  (\<^verbatim>\<open>uint32\<close>), and its payload. \<^verbatim>\<open>msg.Decode(&v)\<close> is go-ethereum's RLP decoder;
  what it yields for each target type the handler decodes into is carried with the
  message, \<open>None\<close> standing for a decode error.
\<close>

record Msg =
  Code :: "64 word"
  Size :: "32 word"
  Decode_PeerProgress :: "PeerProgress option"
  Decode_EventPayloads :: "EventPayload list option"
  Decode_Events :: "hash_Event list option"
  Decode_dagChunk :: "dagChunk option"

text \<open>The message codes of go-opera's \<^verbatim>\<open>gossip\<close> package.\<close>

definition HandshakeMsg :: "64 word" where "HandshakeMsg = 0"

definition ProgressMsg :: "64 word" where "ProgressMsg = 1"

definition EvmTxsMsg :: "64 word" where "EvmTxsMsg = 2"

definition NewEvmTxHashesMsg :: "64 word" where "NewEvmTxHashesMsg = 3"

definition GetEvmTxsMsg :: "64 word" where "GetEvmTxsMsg = 4"

definition NewEventIDsMsg :: "64 word" where "NewEventIDsMsg = 5"

definition GetEventsMsg :: "64 word" where "GetEventsMsg = 6"

definition EventsMsg :: "64 word" where "EventsMsg = 7"

definition RequestEventsStream :: "64 word" where "RequestEventsStream = 8"

definition EventsStreamResponse :: "64 word" where "EventsStreamResponse = 9"

definition RequestBVsStream :: "64 word" where "RequestBVsStream = 10"

definition BVsStreamResponse :: "64 word" where "BVsStreamResponse = 11"

definition RequestBRsStream :: "64 word" where "RequestBRsStream = 12"

definition BRsStreamResponse :: "64 word" where "BRsStreamResponse = 13"

definition RequestEPsStream :: "64 word" where "RequestEPsStream = 14"

definition EPsStreamResponse :: "64 word" where "EPsStreamResponse = 15"

lemmas msg_codes =
  HandshakeMsg_def ProgressMsg_def EvmTxsMsg_def NewEvmTxHashesMsg_def GetEvmTxsMsg_def
  NewEventIDsMsg_def GetEventsMsg_def EventsMsg_def RequestEventsStream_def
  EventsStreamResponse_def RequestBVsStream_def BVsStreamResponse_def RequestBRsStream_def
  BRsStreamResponse_def RequestEPsStream_def EPsStreamResponse_def

section \<open>Errors\<close>

text \<open>
  The error codes of \<^verbatim>\<open>gossip\<close> that the handler uses, and the disconnect reasons of
  go-ethereum's \<^verbatim>\<open>p2p\<close> package that the probe uses.
\<close>

datatype errCode =
  ErrMsgTooLarge | ErrDecode | ErrInvalidMsgCode | ErrExtraStatusMsg | ErrEmptyMessage

datatype DiscReason = DiscQuitting | DiscUselessPeer

text \<open>
  Modelled from the spec: \<^verbatim>\<open>errResp\<close> is not among the source files. The spec names a
  protocol error by its code, so \<open>errResp code\<close> is the error that carries the code;
  the formatted text is dropped. The other errors a session can end with: a failed
  read, \<^verbatim>\<open>errors.New("expected either events or event hashes")\<close>, a disconnect
  reason returned as an error, a failed handshake, a failed registration.
\<close>

datatype error =
    errResp errCode
  | ErrReadMsg
  | ErrExpectedEither
  | ErrDisc DiscReason
  | ErrHandshake
  | ErrAlreadyRegistered

section \<open>Sessions\<close>

text \<open>
  Modelled from the spec: the status constants of a session are not among the source
  files; the spec lists \<open>Unknown\<close>, \<open>Fetching\<close>, \<open>Useless\<close> and \<open>Evil\<close>.
\<close>

datatype PeerStatus = PeerUnknown | PeerFetching | PeerUseless | PeerEvil

type_synonym enode = string

text \<open>
  The fields of \<^verbatim>\<open>peer\<close> that \<^verbatim>\<open>handle\<close> and \<^verbatim>\<open>handleMsg\<close> read or write:
  \<^verbatim>\<open>p.id\<close>, \<^verbatim>\<open>p.Node()\<close>, the name the remote node advertised (\<^verbatim>\<open>p.Fullname()\<close>),
  \<^verbatim>\<open>p.Peer.Info().Network.Trusted\<close>, \<^verbatim>\<open>p.Status\<close>, \<^verbatim>\<open>p.progress\<close>, and the reason
  of the last \<^verbatim>\<open>p.Disconnect\<close>. The message stream \<^verbatim>\<open>p.rw\<close> is passed beside the
  session, as the list of the messages still to come.
\<close>

record peer =
  peer_id :: string
  Node :: enode
  Fullname :: string
  Trusted :: bool
  Status :: PeerStatus
  progress :: PeerProgress
  Disconnected :: "DiscReason option"

text \<open>
  \<^verbatim>\<open>p.Name()\<close> of go-ethereum's \<^verbatim>\<open>p2p.Peer\<close> abbreviates the advertised name: a name
  longer than 20 bytes is cut to its first 20 bytes, followed by three dots.
\<close>

definition Name :: "peer \<Rightarrow> string" where
  "Name p =
     (if 20 < length (Fullname p) then take 20 (Fullname p) @ ''...'' else Fullname p)"

definition Disconnect :: "peer \<Rightarrow> DiscReason \<Rightarrow> peer" where
  "Disconnect p reason = p\<lparr>Disconnected := Some reason\<rparr>"

definition terminal :: "PeerStatus \<Rightarrow> bool" where
  "terminal st = (st = PeerUseless \<or> st = PeerEvil)"

section \<open>What the source files leave open\<close>

text \<open>
  The constants \<^verbatim>\<open>protocolMaxMsgSize\<close> and \<^verbatim>\<open>hardLimitItems\<close> and the method
  \<^verbatim>\<open>peer.Handshake\<close> belong to package \<^verbatim>\<open>p2p\<close> but are not among the source files;
  \<^verbatim>\<open>discfilter.Banned\<close> is go-ethereum's. They are parameters of the model.
  \<open>Handshake\<close> gets the session and the stream, and returns its error (if any) with
  the session and the stream as it leaves them.
\<close>

record env =
  protocolMaxMsgSize :: "32 word"
  hardLimitItems :: int
  Banned :: "enode \<Rightarrow> bool"
  Handshake :: "peer \<Rightarrow> Msg list \<Rightarrow> error option \<times> peer \<times> Msg list"

section \<open>Message handling\<close>

text \<open>
  \<^verbatim>\<open>p.rw.ReadMsg()\<close>: the next message of the stream. A stream that has ended (the
  remote closed the connection) gives a read error.
\<close>

definition ReadMsg :: "Msg list \<Rightarrow> (error + Msg) \<times> Msg list" where
  "ReadMsg rw = (case rw of [] \<Rightarrow> (Inl ErrReadMsg, []) | m # ms \<Rightarrow> (Inr m, ms))"

definition checkLenLimits :: "env \<Rightarrow> int \<Rightarrow> error option" where
  "checkLenLimits e n =
     (if n \<le> 0 then Some (errResp ErrEmptyMessage)
      else if hardLimitItems e < n then Some (errResp ErrMsgTooLarge)
      else None)"

text \<open>
  \<^verbatim>\<open>handleMsg\<close> returns its error (\<open>None\<close> for \<^verbatim>\<open>nil\<close>) together with the session
  and the stream as it leaves them, so that what an error path has or has not
  assigned is visible in the result.
\<close>

definition handleMsg :: "env \<Rightarrow> peer \<Rightarrow> Msg list \<Rightarrow> error option \<times> peer \<times> Msg list" where
  "handleMsg e p rw =
     (case ReadMsg rw of
        (Inl err, rw') \<Rightarrow> (Some err, p, rw')
      | (Inr msg, rw') \<Rightarrow>
          if protocolMaxMsgSize e < Size msg then (Some (errResp ErrMsgTooLarge), p, rw')
          else if Code msg = HandshakeMsg then (Some (errResp ErrExtraStatusMsg), p, rw')
          else if Code msg = ProgressMsg then
            (case Decode_PeerProgress msg of
               None \<Rightarrow> (Some (errResp ErrDecode), p, rw')
             | Some pr \<Rightarrow>
                 (let p1 = p\<lparr>progress := pr\<rparr>
                  in if Event_Epoch (LastBlockAtropos pr) < Epoch pr
                     then (None, p1\<lparr>Status := PeerEvil\<rparr>, rw')
                     else (None, p1\<lparr>Status := PeerUseless\<rparr>, rw')))
          else if Code msg = EvmTxsMsg then (None, p, rw')
          else if Code msg = NewEvmTxHashesMsg then (None, p, rw')
          else if Code msg = GetEvmTxsMsg then (None, p, rw')
          else if Code msg = EventsMsg then
            (case Decode_EventPayloads msg of
               None \<Rightarrow> (Some (errResp ErrDecode), p, rw')
             | Some events \<Rightarrow>
                 (case checkLenLimits e (int (length events)) of
                    Some err \<Rightarrow> (Some err, p, rw')
                  | None \<Rightarrow> (None, p, rw')))
          else if Code msg = NewEventIDsMsg then
            (case Decode_Events msg of
               None \<Rightarrow> (Some (errResp ErrDecode), p, rw')
             | Some announces \<Rightarrow>
                 (case checkLenLimits e (int (length announces)) of
                    Some err \<Rightarrow> (Some err, p, rw')
                  | None \<Rightarrow> (None, p, rw')))
          else if Code msg = GetEventsMsg then
            (case Decode_Events msg of
               None \<Rightarrow> (Some (errResp ErrDecode), p, rw')
             | Some requests \<Rightarrow>
                 (case checkLenLimits e (int (length requests)) of
                    Some err \<Rightarrow> (Some err, p, rw')
                  | None \<Rightarrow> (None, p, rw')))
          else if Code msg = RequestEventsStream then (None, p, rw')
          else if Code msg = EventsStreamResponse then
            (case Decode_dagChunk msg of
               None \<Rightarrow> (Some (errResp ErrDecode), p, rw')
             | Some chunk \<Rightarrow>
                 if length (Events chunk) < 1 \<and> length (IDs chunk) < 1
                 then (Some ErrExpectedEither, p, rw')
                 else if 0 < length (Events chunk) \<and> 0 < length (IDs chunk)
                 then (Some ErrExpectedEither, p, rw')
                 else if 0 < length (Events chunk)
                 then (None, p\<lparr>Status := PeerUseless\<rparr>, rw')
                 else (None, p, rw'))
          else if Code msg = RequestBVsStream then (None, p, rw')
          else if Code msg = BVsStreamResponse then (None, p, rw')
          else if Code msg = RequestBRsStream then (None, p, rw')
          else if Code msg = BRsStreamResponse then (None, p, rw')
          else if Code msg = RequestEPsStream then (None, p, rw')
          else if Code msg = EPsStreamResponse then (None, p, rw')
          else (Some (errResp ErrInvalidMsgCode), p, rw'))"

lemma handleMsg_Nil: "handleMsg e p [] = (Some ErrReadMsg, p, [])"
  by (simp add: handleMsg_def ReadMsg_def)

lemma handleMsg_rest: "handleMsg e p (m # ms) = (r, p', rw') \<Longrightarrow> rw' = ms"
  by (auto simp: handleMsg_def ReadMsg_def Let_def split: if_splits option.splits)

lemma handleMsg_shorter: "handleMsg e p rw = (None, p', rw') \<Longrightarrow> length rw' < length rw"
  by (cases rw) (auto simp: handleMsg_Nil dest: handleMsg_rest)

section \<open>The probe backend and one session\<close>

text \<open>
  The crawl's output unit: \<^verbatim>\<open>common.NodeJSON\<close> with the node and a \<^verbatim>\<open>ClientInfo\<close>
  whose only filled field is the block height as a decimal string.
\<close>

record ClientInfo =
  Blockheight :: string

record NodeJSON =
  N :: enode
  Info :: "ClientInfo option"

text \<open>\<^verbatim>\<open>strconv.FormatUint(v, 10)\<close>: the decimal digits of an unsigned number.\<close>

function FormatUint :: "nat \<Rightarrow> string" where
  "FormatUint n =
     (if n < 10 then [''0123456789'' ! n]
      else FormatUint (n div 10) @ [''0123456789'' ! (n mod 10)])"
  by pat_completeness auto
termination
  by (relation "measure id") auto

text \<open>Channels that are only ever closed (\<^verbatim>\<open>chan struct{}\<close>): closing one twice panics.\<close>

datatype chan_state = Open | Closed

datatype panic = CloseOfClosedChannel

definition close_chan :: "chan_state \<Rightarrow> panic + chan_state" where
  "close_chan c = (case c of Open \<Rightarrow> Inr Closed | Closed \<Rightarrow> Inl CloseOfClosedChannel)"

text \<open>
  \<^verbatim>\<open>ProbeBackend\<close>: the registry of live sessions \<^verbatim>\<open>peers\<close>, the channel \<^verbatim>\<open>output\<close>
  (the field \<open>output_ch\<close>: the records sent so far, in order) and the channel
  \<^verbatim>\<open>quitSync\<close>. The type \<^verbatim>\<open>peerSet\<close> of the registry is not among the source files;
  by the spec it maps identifiers to sessions, one entry per identifier, and it is
  kept here as the set of registered identifiers.
\<close>

record ProbeBackend =
  peers :: "string set"
  output_ch :: "NodeJSON list"
  quitSync :: chan_state

definition NewProbeBackend :: "NodeJSON list \<Rightarrow> ProbeBackend" where
  "NewProbeBackend out = \<lparr>peers = {}, output_ch = out, quitSync = Open\<rparr>"

text \<open>
  \<^verbatim>\<open>Close\<close> closes the quit channel and waits for the running sessions
  (\<^verbatim>\<open>b.wg.Wait()\<close>); the wait changes no field.
\<close>

definition Close :: "ProbeBackend \<Rightarrow> panic + ProbeBackend" where
  "Close b =
     (case close_chan (quitSync b) of
        Inl pn \<Rightarrow> Inl pn
      | Inr c \<Rightarrow> Inr (b\<lparr>quitSync := c\<rparr>))"

text \<open>
  Modelled from the spec: \<^verbatim>\<open>peerSet.RegisterPeer\<close> fails on a duplicate identifier
  and leaves the registry as it is.
\<close>

definition RegisterPeer :: "string set \<Rightarrow> peer \<Rightarrow> error + string set" where
  "RegisterPeer ps p =
     (if peer_id p \<in> ps then Inl ErrAlreadyRegistered else Inr (insert (peer_id p) ps))"

definition unregisterPeer :: "ProbeBackend \<Rightarrow> string \<Rightarrow> ProbeBackend" where
  "unregisterPeer b i = (if i \<notin> peers b then b else b\<lparr>peers := peers b - {i}\<rparr>)"

text \<open>
  \<^verbatim>\<open>strings.ToLower\<close> and \<^verbatim>\<open>strings.Contains\<close> on byte strings. Go lowers every
  rune; here the ASCII capitals are lowered and every other byte is kept. The two
  agree on whether the result contains \<^verbatim>\<open>opera\<close>: no rune outside ASCII lowers to
  one of these five letters, and an ASCII byte is never part of another rune.
\<close>

definition lower_byte :: "char \<Rightarrow> char" where
  "lower_byte c =
     (case map_of (zip ''ABCDEFGHIJKLMNOPQRSTUVWXYZ'' ''abcdefghijklmnopqrstuvwxyz'') c of
        None \<Rightarrow> c
      | Some l \<Rightarrow> l)"

definition ToLower :: "string \<Rightarrow> string" where
  "ToLower s = map lower_byte s"

fun HasPrefix :: "string \<Rightarrow> string \<Rightarrow> bool" where
  "HasPrefix s [] = True"
| "HasPrefix [] (c # cs) = False"
| "HasPrefix (x # xs) (c # cs) = (x = c \<and> HasPrefix xs cs)"

fun Contains :: "string \<Rightarrow> string \<Rightarrow> bool" where
  "Contains [] substr = (substr = [])"
| "Contains (x # xs) substr = (HasPrefix (x # xs) substr \<or> Contains xs substr)"

text \<open>The record a session emits once its status is terminal.\<close>

definition result_of :: "peer \<Rightarrow> NodeJSON" where
  "result_of p =
     \<lparr>N = Node p,
      Info = Some \<lparr>Blockheight = FormatUint (unat (LastBlockIdx (progress p)))\<rparr>\<rparr>"

text \<open>
  The message loop of \<^verbatim>\<open>handle\<close>: one \<^verbatim>\<open>handleMsg\<close> per round, until it fails or
  the status is \<^verbatim>\<open>PeerUseless\<close> or \<^verbatim>\<open>PeerEvil\<close>. A stream of messages that never
  ends keeps the loop running; the streams here are finite and end in a read error.
\<close>

function handle_loop ::
  "env \<Rightarrow> ProbeBackend \<Rightarrow> peer \<Rightarrow> Msg list \<Rightarrow> error option \<times> ProbeBackend \<times> peer \<times> Msg list"
where
  "handle_loop e b p rw =
     (case handleMsg e p rw of
        (Some err, p', rw') \<Rightarrow> (Some err, b, p', rw')
      | (None, p', rw') \<Rightarrow>
          if Status p' = PeerUseless \<or> Status p' = PeerEvil
          then (None, b\<lparr>output_ch := output_ch b @ [result_of p']\<rparr>, p', rw')
          else handle_loop e b p' rw')"
  by pat_completeness auto
termination
  by (relation "measure (\<lambda>(e, b, p, rw). length rw)") (auto dest: handleMsg_shorter [OF sym])

text \<open>
  \<^verbatim>\<open>handle\<close> after its check for useless peers: the handshake, the registration
  and the message loop, with the deferred calls run at each return:
  \<^verbatim>\<open>b.unregisterPeer(p.id)\<close> once the session is registered, then
  \<^verbatim>\<open>p.Disconnect(p2p.DiscUselessPeer)\<close>.
\<close>

definition handle_session ::
  "env \<Rightarrow> ProbeBackend \<Rightarrow> peer \<Rightarrow> Msg list \<Rightarrow> error option \<times> ProbeBackend \<times> peer \<times> Msg list"
where
  "handle_session e b p rw =
     (case Handshake e p rw of
        (Some err, p1, rw1) \<Rightarrow> (Some err, b, Disconnect p1 DiscUselessPeer, rw1)
      | (None, p1, rw1) \<Rightarrow>
          (case RegisterPeer (peers b) p1 of
             Inl err \<Rightarrow> (Some err, b, Disconnect p1 DiscUselessPeer, rw1)
           | Inr ps \<Rightarrow>
               (case handle_loop e (b\<lparr>peers := ps\<rparr>) p1 rw1 of
                  (res, b2, p2, rw2) \<Rightarrow>
                    (res, unregisterPeer b2 (peer_id p1),
                     Disconnect p2 DiscUselessPeer, rw2))))"

text \<open>
  \<^verbatim>\<open>handle\<close>: the check for useless peers comes first, before the handshake; the
  deferred \<^verbatim>\<open>p.Disconnect(p2p.DiscUselessPeer)\<close> runs on this return too.
\<close>

definition handle ::
  "env \<Rightarrow> ProbeBackend \<Rightarrow> peer \<Rightarrow> Msg list \<Rightarrow> error option \<times> ProbeBackend \<times> peer \<times> Msg list"
where
  "handle e b p rw =
     (let useless = Banned e (Node p);
          useless = (if \<not> Contains (ToLower (Name p)) ''opera'' then True else useless)
      in if \<not> Trusted p \<and> useless
         then (Some (ErrDisc DiscUselessPeer), b, Disconnect p DiscUselessPeer, rw)
         else handle_session e b p rw)"

section \<open>The crawler\<close>

text \<open>
  \<^verbatim>\<open>common.NodeSet\<close> is a Go map from node identifiers to records. Maps are
  references: the heap below holds the contents of every map, and a map value is its
  index in the heap.
\<close>

type_synonym NodeSet = "enode \<rightharpoonup> NodeJSON"

text \<open>
  What the \<^verbatim>\<open>select\<close> of the aggregation loop receives, in the order it receives it:
  a record from \<^verbatim>\<open>c.nodes\<close>, or the closing of \<^verbatim>\<open>c.done\<close>.
\<close>

datatype event = RecvNode NodeJSON | RecvDone

text \<open>The two places that call \<^verbatim>\<open>onUpdatedSet\<close>: after a result, and at the stop signal.\<close>

datatype call_site = AfterUpdate | AtDone

text \<open>
  The state of the goroutine that \<^verbatim>\<open>Start\<close> launches: the heap of maps, and the calls
  of \<^verbatim>\<open>onUpdatedSet\<close> made so far, each with the place it was made from, the map it
  was given and what that map held at the call.
\<close>

record run =
  heap :: "NodeSet list"
  calls :: "(call_site \<times> nat \<times> NodeSet) list"

text \<open>
  The loop of the goroutine. \<^verbatim>\<open>c.updateNode\<close> is not among the source files: it is the
  parameter \<open>updateNode\<close>, which gets what the map \<^verbatim>\<open>output\<close> holds and the node, and
  returns what the map holds afterwards. The counter \<^verbatim>\<open>updated\<close> is read and never
  assigned; Go's \<^verbatim>\<open>%\<close> and \<open>mod\<close> agree on whether the remainder is 0. When no event
  is left the goroutine is waiting in the \<^verbatim>\<open>select\<close>.
\<close>

fun aggregate ::
  "(NodeSet \<Rightarrow> enode \<Rightarrow> NodeSet) \<Rightarrow> nat \<Rightarrow> int \<Rightarrow> event list \<Rightarrow> run \<Rightarrow> run"
where
  "aggregate updateNode out updated [] r = r"
| "aggregate updateNode out updated (RecvNode n # evs) r =
     (let r1 = r\<lparr>heap := (heap r)[out := updateNode (heap r ! out) (N n)]\<rparr>;
          r2 = (if updated mod 10 = 0
                then r1\<lparr>calls := calls r1 @ [(AfterUpdate, out, heap r1 ! out)]\<rparr>
                else r1)
      in aggregate updateNode out updated evs r2)"
| "aggregate updateNode out updated (RecvDone # evs) r =
     r\<lparr>calls := calls r @ [(AtDone, out, heap r ! out)]\<rparr>"

text \<open>
  The goroutine of \<^verbatim>\<open>Start\<close> (what precedes it in \<^verbatim>\<open>Start\<close> configures and starts
  the transport server). \<open>input\<close> is the index of the caller's map in the heap.
  \<^verbatim>\<open>make\<close> allocates a new map, the \<^verbatim>\<open>range\<close> loop copies every entry of
  \<^verbatim>\<open>input\<close> into it, \<^verbatim>\<open>updated\<close> starts at 0, and the loop runs.
\<close>

definition Start_goroutine ::
  "(NodeSet \<Rightarrow> enode \<Rightarrow> NodeSet) \<Rightarrow> NodeSet list \<Rightarrow> nat \<Rightarrow> event list \<Rightarrow> run"
where
  "Start_goroutine updateNode h input evs =
     (let out = length h;
          h1 = h @ [Map.empty];
          h2 = h1[out := (\<lambda>k. (h1 ! input) k)]
      in aggregate updateNode out 0 evs \<lparr>heap = h2, calls = []\<rparr>)"

text \<open>
  \<^verbatim>\<open>Crawler\<close>: the transport server (running or not; \<^verbatim>\<open>p2p.Server.Stop\<close> of
  go-ethereum returns at once on a server that is not running), the backend and the
  \<^verbatim>\<open>done\<close> channel.
\<close>

record Crawler =
  server_running :: bool
  backend :: ProbeBackend
  done_chan :: chan_state

definition Stop :: "Crawler \<Rightarrow> panic + Crawler" where
  "Stop c =
     (let c1 = c\<lparr>server_running := False\<rparr>
      in case Close (backend c1) of
           Inl pn \<Rightarrow> Inl pn
         | Inr b \<Rightarrow>
             (case close_chan (done_chan c1) of
                Inl pn \<Rightarrow> Inl pn
              | Inr d \<Rightarrow> Inr (c1\<lparr>backend := b, done_chan := d\<rparr>)))"

text \<open>The calls of \<^verbatim>\<open>onUpdatedSet\<close> are told apart by the place that made them.\<close>

definition after_update :: "call_site \<times> nat \<times> NodeSet \<Rightarrow> bool" where
  "after_update c = (fst c = AfterUpdate)"

definition at_done :: "call_site \<times> nat \<times> NodeSet \<Rightarrow> bool" where
  "at_done c = (fst c = AtDone)"

section \<open>Concrete sessions and messages\<close>

text \<open>
  The values the theorems below are tried on. The maximal message size is 10 MiB and
  the cap on item counts is 20000 (both constants are parameters); the messages that
  are too large are 12 MB long, which a devp2p frame can carry, and the lists that
  are too long have 20001 items.
\<close>

definition example_env :: env where
  "example_env =
     \<lparr>protocolMaxMsgSize = 10485760, hardLimitItems = 20000,
      Banned = (\<lambda>n. False), Handshake = (\<lambda>p rw. (None, p, rw))\<rparr>"

definition opera_peer :: peer where
  "opera_peer =
     \<lparr>peer_id = ''a1'', Node = ''enode://a1@10.0.0.1:5050'', Fullname = ''go-opera/v1.1.2-rc.5'',
      Trusted = False, Status = PeerUnknown,
      progress = \<lparr>Epoch = 0, LastBlockIdx = 0, LastBlockAtropos = 0\<rparr>,
      Disconnected = None\<rparr>"

definition geth_peer :: peer where
  "geth_peer = opera_peer\<lparr>peer_id := ''b2'', Node := ''enode://b2@10.0.0.2:30303'',
     Fullname := ''Geth/v1.10.8-stable''\<rparr>"

text \<open>A peer whose advertised name has \<^verbatim>\<open>opera\<close> after its first 20 bytes only.\<close>

definition sonic_peer :: peer where
  "sonic_peer = opera_peer\<lparr>peer_id := ''c3'', Node := ''enode://c3@10.0.0.3:5050'',
     Fullname := ''Fantom-Sonic-Client/go-opera/v1.1.2''\<rparr>"

definition empty_backend :: ProbeBackend where
  "empty_backend = NewProbeBackend []"

definition plain_msg :: "64 word \<Rightarrow> 32 word \<Rightarrow> Msg" where
  "plain_msg c n =
     \<lparr>Code = c, Size = n, Decode_PeerProgress = None, Decode_EventPayloads = None,
      Decode_Events = None, Decode_dagChunk = None\<rparr>"

definition progress_msg :: "PeerProgress \<Rightarrow> Msg" where
  "progress_msg pr = (plain_msg ProgressMsg 45)\<lparr>Decode_PeerProgress := Some pr\<rparr>"

definition events_msg :: "32 word \<Rightarrow> EventPayload list \<Rightarrow> Msg" where
  "events_msg n xs = (plain_msg EventsMsg n)\<lparr>Decode_EventPayloads := Some xs\<rparr>"

definition chunk_msg :: "32 word \<Rightarrow> dagChunk \<Rightarrow> Msg" where
  "chunk_msg n ch = (plain_msg EventsStreamResponse n)\<lparr>Decode_dagChunk := Some ch\<rparr>"

definition both_chunk :: dagChunk where
  "both_chunk = \<lparr>IDs = [push_bit 224 5 + 1], Events = [[192]]\<rparr>"

definition events_chunk :: dagChunk where
  "events_chunk = \<lparr>IDs = [], Events = [[192], [193]]\<rparr>"

definition empty_chunk :: dagChunk where
  "empty_chunk = \<lparr>IDs = [], Events = []\<rparr>"

definition large_chunk :: dagChunk where
  "large_chunk = \<lparr>IDs = [], Events = replicate 20001 [192]\<rparr>"

text \<open>Epoch 5 reported with a last block of epoch 4, and with a last block of epoch 5.\<close>

definition progress_ahead :: PeerProgress where
  "progress_ahead = \<lparr>Epoch = 5, LastBlockIdx = 1234, LastBlockAtropos = push_bit 224 4 + 77\<rparr>"

definition progress_level :: PeerProgress where
  "progress_level = \<lparr>Epoch = 5, LastBlockIdx = 1234, LastBlockAtropos = push_bit 224 5 + 77\<rparr>"

definition evil_stream :: "Msg list" where
  "evil_stream = [plain_msg EvmTxsMsg 100, progress_msg progress_ahead, plain_msg HandshakeMsg 70]"

definition failing_stream :: "Msg list" where
  "failing_stream = [plain_msg EvmTxsMsg 100, plain_msg HandshakeMsg 70]"

definition started_crawler :: Crawler where
  "started_crawler = \<lparr>server_running = True, backend = NewProbeBackend [], done_chan = Open\<rparr>"

definition stopped_crawler :: Crawler where
  "stopped_crawler =
     \<lparr>server_running = False,
      backend = \<lparr>peers = {}, output_ch = [], quitSync = Closed\<rparr>,
      done_chan = Closed\<rparr>"

definition add_node :: "NodeSet \<Rightarrow> enode \<Rightarrow> NodeSet" where
  "add_node m n = m(n \<mapsto> \<lparr>N = n, Info = None\<rparr>)"

definition one_node :: NodeSet where
  "one_node = [''n1'' \<mapsto> \<lparr>N = ''n1'', Info = None\<rparr>]"

lemmas examples =
  example_env_def opera_peer_def empty_backend_def NewProbeBackend_def
  plain_msg_def progress_msg_def chunk_msg_def progress_ahead_def progress_level_def

section \<open>Facts about sessions\<close>

declare handle_loop.simps [simp del]

lemma handleMsg_oversized:
  "protocolMaxMsgSize e < Size m \<Longrightarrow>
     handleMsg e p (m # ms) = (Some (errResp ErrMsgTooLarge), p, ms)"
  by (simp add: handleMsg_def ReadMsg_def)

lemma handleMsg_error_session: "handleMsg e p rw = (Some err, p', rw') \<Longrightarrow> p' = p"
  by (auto simp: handleMsg_def ReadMsg_def Let_def split: if_splits option.splits list.splits)

lemma handle_loop_error:
  "handleMsg e p rw = (Some err, p', rw') \<Longrightarrow> handle_loop e b p rw = (Some err, b, p, rw')"
  by (frule handleMsg_error_session) (simp add: handle_loop.simps [of e b p rw])

lemma handle_loop_terminal:
  "handleMsg e p rw = (None, p', rw') \<Longrightarrow> terminal (Status p') \<Longrightarrow>
     handle_loop e b p rw = (None, b\<lparr>output_ch := output_ch b @ [result_of p']\<rparr>, p', rw')"
  by (simp add: handle_loop.simps [of e b p rw] terminal_def)

lemma handle_loop_continue:
  "handleMsg e p rw = (None, p', rw') \<Longrightarrow> \<not> terminal (Status p') \<Longrightarrow>
     handle_loop e b p rw = handle_loop e b p' rw'"
  by (simp add: handle_loop.simps [of e b p rw] terminal_def)

lemma handle_loop_outcome:
  "handle_loop e b p rw = (res, b', p', rw') \<Longrightarrow>
     (case res of
        Some err \<Rightarrow> b' = b \<and> (\<not> terminal (Status p) \<longrightarrow> \<not> terminal (Status p'))
      | None \<Rightarrow> terminal (Status p') \<and> b' = b\<lparr>output_ch := output_ch b @ [result_of p']\<rparr>)"
proof (induction e b p rw rule: handle_loop.induct)
  case (1 e b p rw)
  obtain r p1 rw1 where hm: "handleMsg e p rw = (r, p1, rw1)"
    by (cases "handleMsg e p rw") auto
  show ?case
  proof (cases r)
    case (Some err)
    with hm "1.prems" show ?thesis
      by (auto simp: handle_loop_error dest: handleMsg_error_session)
  next
    case None
    show ?thesis
    proof (cases "terminal (Status p1)")
      case True
      with hm None "1.prems" show ?thesis
        by (auto simp: handle_loop_terminal)
    next
      case False
      with hm None "1.prems" have rec: "handle_loop e b p1 rw1 = (res, b', p', rw')"
        by (simp add: handle_loop_continue)
      from False have "\<not> (Status p1 = PeerUseless \<or> Status p1 = PeerEvil)"
        by (simp add: terminal_def)
      from "1.IH" [OF hm [symmetric] None refl this rec] False show ?thesis
        by (auto split: option.splits)
    qed
  qed
qed

lemma result_of_Disconnect: "result_of (Disconnect p r) = result_of p"
  by (simp add: result_of_def Disconnect_def)

lemma Status_Disconnect: "Status (Disconnect p r) = Status p"
  by (simp add: Disconnect_def)

lemma Disconnected_Disconnect: "Disconnected (Disconnect p r) = Some r"
  by (simp add: Disconnect_def)

lemma unregister_registered:
  "i \<notin> peers b \<Longrightarrow> unregisterPeer (b\<lparr>peers := insert i (peers b)\<rparr>) i = b"
  by (simp add: unregisterPeer_def)

lemma unregister_registered_output:
  "i \<notin> peers b \<Longrightarrow>
     unregisterPeer (b\<lparr>peers := insert i (peers b), output_ch := out\<rparr>) i = b\<lparr>output_ch := out\<rparr>"
  by (simp add: unregisterPeer_def)

text \<open>What a session leaves behind, whatever way it ends.\<close>

lemma handle_session_outcome:
  assumes "handle_session e b p rw = (res, b', p', rw')"
  shows "Disconnected p' = Some DiscUselessPeer \<and>
     (case res of
        Some err \<Rightarrow> b' = b
      | None \<Rightarrow> terminal (Status p') \<and> b' = b\<lparr>output_ch := output_ch b @ [result_of p']\<rparr>)"
proof -
  obtain r1 p1 rw1 where hs: "Handshake e p rw = (r1, p1, rw1)"
    by (cases "Handshake e p rw") auto
  show ?thesis
  proof (cases r1)
    case (Some err)
    with hs assms show ?thesis
      by (auto simp: handle_session_def Disconnect_def)
  next
    case None
    show ?thesis
    proof (cases "peer_id p1 \<in> peers b")
      case True
      with hs None assms show ?thesis
        by (auto simp: handle_session_def RegisterPeer_def Disconnect_def)
    next
      case False
      obtain r2 b2 p2 rw2 where
        lp: "handle_loop e (b\<lparr>peers := insert (peer_id p1) (peers b)\<rparr>) p1 rw1 = (r2, b2, p2, rw2)"
        by (cases "handle_loop e (b\<lparr>peers := insert (peer_id p1) (peers b)\<rparr>) p1 rw1") auto
      with hs None False assms have out:
        "res = r2" "b' = unregisterPeer b2 (peer_id p1)" "p' = Disconnect p2 DiscUselessPeer"
        by (auto simp: handle_session_def RegisterPeer_def)
      from handle_loop_outcome [OF lp] False out show ?thesis
        by (cases r2)
          (auto simp: unregister_registered unregister_registered_output
             result_of_Disconnect Status_Disconnect Disconnected_Disconnect)
    qed
  qed
qed

lemma handle_unfold:
  "handle e b p rw =
     (if \<not> Trusted p \<and> (Banned e (Node p) \<or> \<not> Contains (ToLower (Name p)) ''opera'')
      then (Some (ErrDisc DiscUselessPeer), b, Disconnect p DiscUselessPeer, rw)
      else handle_session e b p rw)"
  by (simp add: handle_def Let_def)

lemma handle_outcome:
  assumes "handle e b p rw = (res, b', p', rw')"
  shows "Disconnected p' = Some DiscUselessPeer \<and>
     (case res of
        Some err \<Rightarrow> b' = b
      | None \<Rightarrow> terminal (Status p') \<and> b' = b\<lparr>output_ch := output_ch b @ [result_of p']\<rparr>)"
proof (cases "\<not> Trusted p \<and> (Banned e (Node p) \<or> \<not> Contains (ToLower (Name p)) ''opera'')")
  case True
  with assms show ?thesis
    by (auto simp: handle_unfold Disconnect_def)
next
  case False
  with assms have "handle_session e b p rw = (res, b', p', rw')"
    by (simp add: handle_unfold)
  then show ?thesis by (rule handle_session_outcome)
qed

text \<open>A session that ends with an error has not reached a terminal status on the way.\<close>

lemma handle_error_status:
  assumes "handle e b p rw = (Some err, b', p', rw')"
      and "\<not> terminal (Status p)"
      and "\<not> terminal (Status (fst (snd (Handshake e p rw))))"
  shows "\<not> terminal (Status p')"
proof (cases "\<not> Trusted p \<and> (Banned e (Node p) \<or> \<not> Contains (ToLower (Name p)) ''opera'')")
  case True
  with assms show ?thesis
    by (auto simp: handle_unfold Disconnect_def)
next
  case False
  with assms have run: "handle_session e b p rw = (Some err, b', p', rw')"
    by (simp add: handle_unfold)
  obtain r1 p1 rw1 where hs: "Handshake e p rw = (r1, p1, rw1)"
    by (cases "Handshake e p rw") auto
  with assms(3) have p1: "\<not> terminal (Status p1)" by simp
  show ?thesis
  proof (cases r1)
    case (Some err1)
    with hs run p1 show ?thesis
      by (auto simp: handle_session_def Disconnect_def)
  next
    case None
    show ?thesis
    proof (cases "peer_id p1 \<in> peers b")
      case True
      with hs None run p1 show ?thesis
        by (auto simp: handle_session_def RegisterPeer_def Disconnect_def)
    next
      case False
      obtain r2 b2 p2 rw2 where
        lp: "handle_loop e (b\<lparr>peers := insert (peer_id p1) (peers b)\<rparr>) p1 rw1 = (r2, b2, p2, rw2)"
        by (cases "handle_loop e (b\<lparr>peers := insert (peer_id p1) (peers b)\<rparr>) p1 rw1") auto
      with hs None False run have "r2 = Some err" "p' = Disconnect p2 DiscUselessPeer"
        by (auto simp: handle_session_def RegisterPeer_def)
      with handle_loop_outcome [OF lp] p1 show ?thesis
        by (simp add: Status_Disconnect)
    qed
  qed
qed

lemma evil_stream_run:
  "handle example_env empty_backend opera_peer evil_stream =
     (None,
      empty_backend\<lparr>output_ch :=
        [\<lparr>N = ''enode://a1@10.0.0.1:5050'', Info = Some \<lparr>Blockheight = ''1234''\<rparr>\<rparr>]\<rparr>,
      opera_peer\<lparr>progress := progress_ahead, Status := PeerEvil,
        Disconnected := Some DiscUselessPeer\<rparr>,
      [plain_msg HandshakeMsg 70])"
proof -
  let ?p = "opera_peer\<lparr>progress := progress_ahead, Status := PeerEvil\<rparr>"
  let ?b = "empty_backend\<lparr>peers := {''a1''}\<rparr>"
  have 1: "handleMsg example_env opera_peer evil_stream =
      (None, opera_peer, [progress_msg progress_ahead, plain_msg HandshakeMsg 70])"
    by (simp add: handleMsg_def ReadMsg_def msg_codes examples evil_stream_def)
  have 2: "handleMsg example_env opera_peer
      [progress_msg progress_ahead, plain_msg HandshakeMsg 70] =
      (None, ?p, [plain_msg HandshakeMsg 70])"
    by (simp add: handleMsg_def ReadMsg_def msg_codes examples Event_Epoch_def)
  have "handle_loop example_env ?b opera_peer evil_stream =
      handle_loop example_env ?b opera_peer
        [progress_msg progress_ahead, plain_msg HandshakeMsg 70]"
    using 1 by (rule handle_loop_continue) (simp add: terminal_def opera_peer_def)
  also have "\<dots> = (None, ?b\<lparr>output_ch := output_ch ?b @ [result_of ?p]\<rparr>, ?p,
      [plain_msg HandshakeMsg 70])"
    using 2 by (rule handle_loop_terminal) (simp add: terminal_def)
  finally show ?thesis
    by (simp add: handle_unfold handle_session_def RegisterPeer_def unregisterPeer_def
        result_of_def Disconnect_def examples Name_def ToLower_def lower_byte_def)
qed

lemma failing_stream_run:
  "handle example_env empty_backend opera_peer failing_stream =
     (Some (errResp ErrExtraStatusMsg), empty_backend,
      opera_peer\<lparr>Disconnected := Some DiscUselessPeer\<rparr>, [])"
proof -
  let ?b = "empty_backend\<lparr>peers := {''a1''}\<rparr>"
  have 1: "handleMsg example_env opera_peer failing_stream =
      (None, opera_peer, [plain_msg HandshakeMsg 70])"
    by (simp add: handleMsg_def ReadMsg_def msg_codes examples failing_stream_def)
  have 2: "handleMsg example_env opera_peer [plain_msg HandshakeMsg 70] =
      (Some (errResp ErrExtraStatusMsg), opera_peer, [])"
    by (simp add: handleMsg_def ReadMsg_def msg_codes examples)
  have "handle_loop example_env ?b opera_peer failing_stream =
      handle_loop example_env ?b opera_peer [plain_msg HandshakeMsg 70]"
    using 1 by (rule handle_loop_continue) (simp add: terminal_def opera_peer_def)
  also have "\<dots> = (Some (errResp ErrExtraStatusMsg), ?b, opera_peer, [])"
    using 2 by (rule handle_loop_error)
  finally show ?thesis
    by (simp add: handle_unfold handle_session_def RegisterPeer_def unregisterPeer_def
        Disconnect_def examples Name_def ToLower_def lower_byte_def)
qed

section \<open>Facts about names\<close>

text \<open>
  \<open>Contains\<close> is the search for a contiguous substring, and the three dots that
  \<^verbatim>\<open>p.Name()\<close> appends cannot be part of an occurrence of \<^verbatim>\<open>opera\<close>: the test of
  \<^verbatim>\<open>handle\<close> looks at the first 20 bytes of the advertised name.
\<close>

lemma HasPrefix_iff: "HasPrefix s sub \<longleftrightarrow> (\<exists>v. s = sub @ v)"
  by (induction s sub rule: HasPrefix.induct) auto

lemma Contains_iff: "Contains s sub \<longleftrightarrow> (\<exists>u v. s = u @ sub @ v)"
proof (induction s)
  case Nil
  then show ?case by auto
next
  case (Cons x xs)
  have "(\<exists>u v. x # xs = u @ sub @ v) \<longleftrightarrow>
      (\<exists>v. x # xs = sub @ v) \<or> (\<exists>u v. xs = u @ sub @ v)"
  proof
    assume "\<exists>u v. x # xs = u @ sub @ v"
    then obtain u v where uv: "x # xs = u @ sub @ v" by blast
    show "(\<exists>v. x # xs = sub @ v) \<or> (\<exists>u v. xs = u @ sub @ v)"
    proof (cases u)
      case Nil
      with uv show ?thesis by auto
    next
      case (Cons y ys)
      with uv have "xs = ys @ sub @ v" by simp
      then show ?thesis by blast
    qed
  next
    assume "(\<exists>v. x # xs = sub @ v) \<or> (\<exists>u v. xs = u @ sub @ v)"
    then show "\<exists>u v. x # xs = u @ sub @ v"
    proof
      assume "\<exists>v. x # xs = sub @ v"
      then obtain v where "x # xs = [] @ sub @ v" by auto
      then show ?thesis by blast
    next
      assume "\<exists>u v. xs = u @ sub @ v"
      then obtain u v where "x # xs = (x # u) @ sub @ v" by auto
      then show ?thesis by blast
    qed
  qed
  with Cons show ?case by (simp add: HasPrefix_iff)
qed

lemma HasPrefix_append_disjoint:
  "set ys \<inter> set sub = {} \<Longrightarrow> HasPrefix (zs @ ys) sub = HasPrefix zs sub"
proof (induction zs sub rule: HasPrefix.induct)
  case (1 s)
  then show ?case by simp
next
  case (2 c cs)
  then show ?case by (cases ys) auto
next
  case (3 x xs c cs)
  then show ?case by auto
qed

lemma Contains_disjoint:
  "set ys \<inter> set sub = {} \<Longrightarrow> sub \<noteq> [] \<Longrightarrow> \<not> Contains ys sub"
proof
  assume disj: "set ys \<inter> set sub = {}" and ne: "sub \<noteq> []" and "Contains ys sub"
  then obtain u v where "ys = u @ sub @ v" by (auto simp: Contains_iff)
  then have "set sub \<subseteq> set ys" by auto
  moreover from ne have "hd sub \<in> set sub" by simp
  ultimately show False using disj by auto
qed

lemma Contains_append_disjoint:
  "set ys \<inter> set sub = {} \<Longrightarrow> sub \<noteq> [] \<Longrightarrow> Contains (xs @ ys) sub = Contains xs sub"
proof (induction xs)
  case Nil
  then show ?case by (simp add: Contains_disjoint)
next
  case (Cons x xs)
  from Cons.prems(1) have "HasPrefix ((x # xs) @ ys) sub = HasPrefix (x # xs) sub"
    by (rule HasPrefix_append_disjoint)
  with Cons show ?case by simp
qed

lemma opera_in_Name:
  "Contains (ToLower (Name p)) ''opera'' \<longleftrightarrow>
     (\<exists>u v. ToLower (take 20 (Fullname p)) = u @ ''opera'' @ v)"
proof -
  have dots: "ToLower ''...'' = ''...''"
    by (simp add: ToLower_def lower_byte_def)
  have "Contains (ToLower (Name p)) ''opera'' =
      Contains (ToLower (take 20 (Fullname p))) ''opera''"
  proof (cases "20 < length (Fullname p)")
    case True
    then have "ToLower (Name p) = ToLower (take 20 (Fullname p)) @ ''...''"
      using dots by (simp add: Name_def ToLower_def)
    then show ?thesis
      by (simp add: Contains_append_disjoint)
  next
    case False
    then show ?thesis by (simp add: Name_def)
  qed
  then show ?thesis by (simp add: Contains_iff)
qed

section \<open>Facts about the aggregation loop\<close>

lemma aggregate_results_then_done:
  "calls (aggregate f out 0 (map RecvNode ns @ RecvDone # rest) r) = cs \<Longrightarrow>
     length (filter after_update cs) = length (filter after_update (calls r)) + length ns \<and>
     length (filter at_done cs) = Suc (length (filter at_done (calls r)))"
proof (induction ns arbitrary: r cs)
  case Nil
  then show ?case by (auto simp: after_update_def at_done_def)
next
  case (Cons n ns)
  let ?r = "r\<lparr>heap := (heap r)[out := f (heap r ! out) (N n)],
             calls := calls r @ [(AfterUpdate, out, (heap r)[out := f (heap r ! out) (N n)] ! out)]\<rparr>"
  from Cons.prems have "calls (aggregate f out 0 (map RecvNode ns @ RecvDone # rest) ?r) = cs"
    by (simp add: Let_def)
  from Cons.IH [OF this] show ?case
    by (simp add: after_update_def at_done_def)
qed

lemma aggregate_at_done_once:
  "length (filter at_done (calls (aggregate f out u evs r)))
     \<le> Suc (length (filter at_done (calls r)))"
  by (induction f out u evs r rule: aggregate.induct)
    (auto simp: Let_def at_done_def)

lemma aggregate_after_done:
  "aggregate f out u (evs @ RecvDone # rest) r = aggregate f out u (evs @ [RecvDone]) r"
  by (induction f out u evs r rule: aggregate.induct) (auto simp: Let_def)

lemma aggregate_heap_frame:
  "length (heap r) = Suc out \<Longrightarrow>
     take out (heap (aggregate f out u evs r)) = take out (heap r) \<and>
     length (heap (aggregate f out u evs r)) = Suc out"
  by (induction f out u evs r rule: aggregate.induct) (auto simp: Let_def)

lemma aggregate_calls_map:
  "\<forall>c \<in> set (calls r). fst (snd c) = out \<Longrightarrow>
     \<forall>c \<in> set (calls (aggregate f out u evs r)). fst (snd c) = out"
proof (induction evs arbitrary: r)
  case Nil
  then show ?case by simp
next
  case (Cons ev evs)
  show ?case
  proof (cases ev)
    case (RecvNode n)
    let ?r1 = "r\<lparr>heap := (heap r)[out := f (heap r ! out) (N n)]\<rparr>"
    let ?r2 = "if u mod 10 = 0
       then ?r1\<lparr>calls := calls ?r1 @ [(AfterUpdate, out, heap ?r1 ! out)]\<rparr> else ?r1"
    from Cons.prems have "\<forall>c \<in> set (calls ?r2). fst (snd c) = out"
      by simp
    from Cons.IH [OF this] RecvNode show ?thesis
      by (simp add: Let_def)
  next
    case RecvDone
    with Cons.prems show ?thesis by simp
  qed
qed

section \<open>The callback of the aggregation loop\<close>

text \<open>
  C1 says that \<^verbatim>\<open>onUpdatedSet\<close> is called once per tenth result and once more at the
  stop signal: 3 calls and one for 25 results. The code does not do that: the loop
  tests \<^verbatim>\<open>updated%10 == 0\<close> on a counter that stays 0, so it calls \<^verbatim>\<open>onUpdatedSet\<close>
  after every result it receives. After \<open>length ns\<close> results and the stop signal
  there are \<open>length ns\<close> calls made after a result and one made at the stop signal;
  after 25 results that is 25 calls and one.
\<close>

theorem Start_calls_after_every_result:
  "length (filter after_update
      (calls (Start_goroutine f h input (map RecvNode ns @ [RecvDone])))) = length ns \<and>
   length (filter at_done
      (calls (Start_goroutine f h input (map RecvNode ns @ [RecvDone])))) = 1 \<and>
   length (filter after_update
      (calls (Start_goroutine f h input (map RecvNode (replicate 25 n) @ [RecvDone])))) = 25"
proof -
  have "length (filter after_update
      (calls (Start_goroutine f h input (map RecvNode ms @ [RecvDone])))) = length ms \<and>
    length (filter at_done
      (calls (Start_goroutine f h input (map RecvNode ms @ [RecvDone])))) = 1" for ms
    using aggregate_results_then_done [OF refl, of f "length h" ms "[]"]
    by (simp add: Start_goroutine_def Let_def)
  from this [of ns] this [of "replicate 25 n"] show ?thesis by simp
qed

section \<open>Stopping\<close>

text \<open>
  C2, as stated, fails: the second \<^verbatim>\<open>Close()\<close> closes a closed channel, which
  panics, and so does the second \<^verbatim>\<open>Stop()\<close>, inside its call of \<^verbatim>\<open>Close()\<close>.
\<close>

theorem Close_twice_counterexample:
  "Close (NewProbeBackend []) = Inr \<lparr>peers = {}, output_ch = [], quitSync = Closed\<rparr> \<and>
   Close \<lparr>peers = {}, output_ch = [], quitSync = Closed\<rparr> = Inl CloseOfClosedChannel \<and>
   Stop started_crawler = Inr stopped_crawler \<and>
   Stop stopped_crawler = Inl CloseOfClosedChannel"
  by (simp add: Close_def Stop_def close_chan_def NewProbeBackend_def started_crawler_def
      stopped_crawler_def)

text \<open>
  C2, amended. \<^verbatim>\<open>Close()\<close> and \<^verbatim>\<open>Stop()\<close> are one-shot: called while the quit
  channel (and, for \<^verbatim>\<open>Stop()\<close>, the done channel) is open they close it and do not
  panic; called on a backend whose quit channel is closed they panic. The call of
  \<^verbatim>\<open>onUpdatedSet\<close> at the stop signal is made at most once per run of the goroutine
  that \<^verbatim>\<open>Start\<close> launches, and nothing that arrives after the stop signal changes the
  run.
\<close>

theorem Close_Stop_one_shot:
  "(quitSync b = Open \<longrightarrow> Close b = Inr (b\<lparr>quitSync := Closed\<rparr>)) \<and>
   (quitSync b = Closed \<longrightarrow> Close b = Inl CloseOfClosedChannel) \<and>
   (quitSync (backend c) = Open \<and> done_chan c = Open \<longrightarrow>
      Stop c = Inr (c\<lparr>server_running := False,
                      backend := (backend c)\<lparr>quitSync := Closed\<rparr>,
                      done_chan := Closed\<rparr>)) \<and>
   (quitSync (backend c) = Closed \<longrightarrow> Stop c = Inl CloseOfClosedChannel) \<and>
   length (filter at_done (calls (Start_goroutine f h input evs))) \<le> 1 \<and>
   Start_goroutine f h input (evs @ RecvDone # rest) =
     Start_goroutine f h input (evs @ [RecvDone])"
proof -
  have "length (filter at_done (calls (Start_goroutine f h input evs))) \<le> 1"
    using aggregate_at_done_once
      [of f "length h" 0 evs "\<lparr>heap = (h @ [Map.empty])[length h := (h @ [Map.empty]) ! input],
         calls = []\<rparr>"]
    by (simp add: Start_goroutine_def Let_def)
  moreover have "Start_goroutine f h input (evs @ RecvDone # rest) =
      Start_goroutine f h input (evs @ [RecvDone])"
    by (simp add: Start_goroutine_def Let_def aggregate_after_done [of _ _ _ evs rest])
  ultimately show ?thesis
    by (simp add: Close_def Stop_def close_chan_def Let_def)
qed

theorem Close_Stop_one_shot_witness:
  "Close (NewProbeBackend []) = Inr ((NewProbeBackend [])\<lparr>quitSync := Closed\<rparr>) \<and>
   Close ((NewProbeBackend [])\<lparr>quitSync := Closed\<rparr>) = Inl CloseOfClosedChannel \<and>
   Stop started_crawler = Inr stopped_crawler \<and>
   Stop stopped_crawler = Inl CloseOfClosedChannel \<and>
   length (filter at_done
     (calls (Start_goroutine add_node [Map.empty] 0 [RecvDone, RecvDone]))) = 1"
proof -
  have "length (filter at_done
     (calls (Start_goroutine add_node [Map.empty] 0 [RecvDone, RecvDone]))) = 1"
    by (simp add: Start_goroutine_def Let_def at_done_def)
  then show ?thesis
    using Close_Stop_one_shot [of "NewProbeBackend []" started_crawler add_node "[Map.empty]" 0
        "[RecvDone, RecvDone]" "[]"]
      Close_Stop_one_shot [of "(NewProbeBackend [])\<lparr>quitSync := Closed\<rparr>" stopped_crawler
        add_node "[Map.empty]" 0 "[]" "[]"]
    by (simp add: NewProbeBackend_def started_crawler_def stopped_crawler_def)
qed

section \<open>The check for useless peers\<close>

text \<open>
  C3, as stated, fails: a peer whose name lacks \<^verbatim>\<open>opera\<close> and that is not trusted is
  dropped although it is not banned, and so is an untrusted, unbanned peer whose
  advertised name has \<^verbatim>\<open>opera\<close> after its first 20 bytes only. The stream holds a
  progress message that the session never reads.
\<close>

theorem useless_check_counterexample:
  "\<not> Contains (ToLower (Name geth_peer)) ''opera'' \<and>
   \<not> Trusted geth_peer \<and>
   \<not> Banned example_env (Node geth_peer) \<and>
   handle example_env empty_backend geth_peer [progress_msg progress_level] =
     (Some (ErrDisc DiscUselessPeer), empty_backend,
      geth_peer\<lparr>Disconnected := Some DiscUselessPeer\<rparr>, [progress_msg progress_level]) \<and>
   Contains (ToLower (Fullname sonic_peer)) ''opera'' \<and>
   \<not> Trusted sonic_peer \<and>
   \<not> Banned example_env (Node sonic_peer) \<and>
   handle example_env empty_backend sonic_peer [progress_msg progress_level] =
     (Some (ErrDisc DiscUselessPeer), empty_backend,
      sonic_peer\<lparr>Disconnected := Some DiscUselessPeer\<rparr>, [progress_msg progress_level])"
  by (simp add: handle_unfold examples geth_peer_def sonic_peer_def Name_def ToLower_def
      lower_byte_def Disconnect_def)

text \<open>
  C3, amended. \<open>handle\<close> returns \<open>DiscUselessPeer\<close> before the handshake, with no
  message read and the backend untouched, exactly when the peer is not trusted and
  either is banned or has no \<^verbatim>\<open>opera\<close> (in any letter case) within the first 20
  bytes of the name it advertised: the code tests \<^verbatim>\<open>p.Name()\<close>, which cuts the
  advertised name to 20 bytes. Every other peer goes on to the handshake, whose
  error \<open>handle\<close> returns if it fails, and then to the registration and the message
  loop.
\<close>

theorem handle_useless_check:
  "handle e b p rw =
     (if \<not> Trusted p \<and>
         (Banned e (Node p) \<or>
          \<not> (\<exists>u v. ToLower (take 20 (Fullname p)) = u @ ''opera'' @ v))
      then (Some (ErrDisc DiscUselessPeer), b, Disconnect p DiscUselessPeer, rw)
      else handle_session e b p rw) \<and>
   (\<forall>err p1 rw1.
      Handshake e p rw = (Some err, p1, rw1) \<longrightarrow>
        handle_session e b p rw = (Some err, b, Disconnect p1 DiscUselessPeer, rw1)) \<and>
   (\<forall>p1 rw1.
      Handshake e p rw = (None, p1, rw1) \<and> peer_id p1 \<notin> peers b \<longrightarrow>
        handle_session e b p rw =
          (case handle_loop e (b\<lparr>peers := insert (peer_id p1) (peers b)\<rparr>) p1 rw1 of
             (res, b2, p2, rw2) \<Rightarrow>
               (res, unregisterPeer b2 (peer_id p1), Disconnect p2 DiscUselessPeer, rw2)))"
  by (simp add: handle_unfold opera_in_Name handle_session_def RegisterPeer_def)

theorem handle_useless_check_witness:
  "handle example_env empty_backend sonic_peer [progress_msg progress_level] =
     (Some (ErrDisc DiscUselessPeer), empty_backend,
      sonic_peer\<lparr>Disconnected := Some DiscUselessPeer\<rparr>, [progress_msg progress_level]) \<and>
   handle example_env empty_backend opera_peer [progress_msg progress_level] =
     handle_session example_env empty_backend opera_peer [progress_msg progress_level] \<and>
   handle example_env empty_backend (geth_peer\<lparr>Trusted := True\<rparr>) [] =
     handle_session example_env empty_backend (geth_peer\<lparr>Trusted := True\<rparr>) [] \<and>
   handle example_env empty_backend (geth_peer\<lparr>Fullname := ''Go-OPERA''\<rparr>) [] =
     handle_session example_env empty_backend (geth_peer\<lparr>Fullname := ''Go-OPERA''\<rparr>) [] \<and>
   handle (example_env\<lparr>Banned := (\<lambda>n. True)\<rparr>) empty_backend opera_peer [] =
     (Some (ErrDisc DiscUselessPeer), empty_backend,
      opera_peer\<lparr>Disconnected := Some DiscUselessPeer\<rparr>, [])"
proof -
  have sonic: "\<not> (\<exists>u v. ToLower (take 20 (Fullname sonic_peer)) = u @ ''opera'' @ v)"
    unfolding Contains_iff [symmetric]
    by (simp add: sonic_peer_def opera_peer_def ToLower_def lower_byte_def)
  have opera: "\<exists>u v. ToLower (take 20 (Fullname opera_peer)) = u @ ''opera'' @ v"
    unfolding Contains_iff [symmetric]
    by (simp add: opera_peer_def ToLower_def lower_byte_def)
  have upper: "\<exists>u v. ToLower (take 20 (Fullname (geth_peer\<lparr>Fullname := ''Go-OPERA''\<rparr>)))
      = u @ ''opera'' @ v"
    unfolding Contains_iff [symmetric]
    by (simp add: ToLower_def lower_byte_def)
  have c1: "\<not> Trusted sonic_peer \<and>
      (Banned example_env (Node sonic_peer) \<or>
       \<not> (\<exists>u v. ToLower (take 20 (Fullname sonic_peer)) = u @ ''opera'' @ v))"
    using sonic by (simp add: sonic_peer_def opera_peer_def)
  have c2: "\<not> (\<not> Trusted opera_peer \<and>
      (Banned example_env (Node opera_peer) \<or>
       \<not> (\<exists>u v. ToLower (take 20 (Fullname opera_peer)) = u @ ''opera'' @ v)))"
    using opera by (simp add: example_env_def)
  have c3: "\<not> (\<not> Trusted (geth_peer\<lparr>Trusted := True\<rparr>) \<and>
      (Banned example_env (Node (geth_peer\<lparr>Trusted := True\<rparr>)) \<or>
       \<not> (\<exists>u v. ToLower (take 20 (Fullname (geth_peer\<lparr>Trusted := True\<rparr>)))
          = u @ ''opera'' @ v)))"
    by simp
  have c4: "\<not> (\<not> Trusted (geth_peer\<lparr>Fullname := ''Go-OPERA''\<rparr>) \<and>
      (Banned example_env (Node (geth_peer\<lparr>Fullname := ''Go-OPERA''\<rparr>)) \<or>
       \<not> (\<exists>u v. ToLower (take 20 (Fullname (geth_peer\<lparr>Fullname := ''Go-OPERA''\<rparr>)))
          = u @ ''opera'' @ v)))"
    using upper by (simp add: example_env_def)
  have c5: "\<not> Trusted opera_peer \<and>
      (Banned (example_env\<lparr>Banned := (\<lambda>n. True)\<rparr>) (Node opera_peer) \<or>
       \<not> (\<exists>u v. ToLower (take 20 (Fullname opera_peer)) = u @ ''opera'' @ v))"
    by (simp add: opera_peer_def)
  have "handle example_env empty_backend sonic_peer [progress_msg progress_level] =
      (Some (ErrDisc DiscUselessPeer), empty_backend,
       Disconnect sonic_peer DiscUselessPeer, [progress_msg progress_level])"
    using handle_useless_check
      [of example_env empty_backend sonic_peer "[progress_msg progress_level]", THEN conjunct1]
    by (simp only: if_P [OF c1])
  moreover have "handle example_env empty_backend opera_peer [progress_msg progress_level] =
      handle_session example_env empty_backend opera_peer [progress_msg progress_level]"
    using handle_useless_check
      [of example_env empty_backend opera_peer "[progress_msg progress_level]", THEN conjunct1]
    by (simp only: if_not_P [OF c2])
  moreover have "handle example_env empty_backend (geth_peer\<lparr>Trusted := True\<rparr>) [] =
      handle_session example_env empty_backend (geth_peer\<lparr>Trusted := True\<rparr>) []"
    using handle_useless_check
      [of example_env empty_backend "geth_peer\<lparr>Trusted := True\<rparr>" "[]", THEN conjunct1]
    by (simp only: if_not_P [OF c3])
  moreover have "handle example_env empty_backend (geth_peer\<lparr>Fullname := ''Go-OPERA''\<rparr>) [] =
      handle_session example_env empty_backend (geth_peer\<lparr>Fullname := ''Go-OPERA''\<rparr>) []"
    using handle_useless_check
      [of example_env empty_backend "geth_peer\<lparr>Fullname := ''Go-OPERA''\<rparr>" "[]",
        THEN conjunct1]
    by (simp only: if_not_P [OF c4])
  moreover have "handle (example_env\<lparr>Banned := (\<lambda>n. True)\<rparr>) empty_backend opera_peer [] =
      (Some (ErrDisc DiscUselessPeer), empty_backend, Disconnect opera_peer DiscUselessPeer, [])"
    using handle_useless_check
      [of "example_env\<lparr>Banned := (\<lambda>n. True)\<rparr>" empty_backend opera_peer "[]",
        THEN conjunct1]
    by (simp only: if_P [OF c5])
  ultimately show ?thesis
    by (simp add: Disconnect_def)
qed

section \<open>Progress messages\<close>

text \<open>
  C4. A progress message that passes the size check and decodes replaces the
  session's progress by the reported one, and sets the status to \<open>PeerEvil\<close> exactly
  when the reported epoch is greater than the epoch of the reported last block's
  hash, and to \<open>PeerUseless\<close> otherwise.
\<close>

theorem handleMsg_progress_classifies:
  assumes "Code m = ProgressMsg"
      and "Size m \<le> protocolMaxMsgSize e"
      and "Decode_PeerProgress m = Some pr"
  shows "handleMsg e p (m # ms) =
     (None,
      p\<lparr>progress := pr,
        Status := (if Event_Epoch (LastBlockAtropos pr) < Epoch pr then PeerEvil
                   else PeerUseless)\<rparr>,
      ms)"
  using assms by (simp add: handleMsg_def ReadMsg_def msg_codes Let_def)

theorem handleMsg_progress_classifies_witness:
  "handleMsg example_env opera_peer [progress_msg progress_ahead] =
     (None, opera_peer\<lparr>progress := progress_ahead, Status := PeerEvil\<rparr>, []) \<and>
   handleMsg example_env opera_peer [progress_msg progress_level] =
     (None, opera_peer\<lparr>progress := progress_level, Status := PeerUseless\<rparr>, [])"
proof -
  have c: "Code (progress_msg pr) = ProgressMsg"
    and s: "Size (progress_msg pr) \<le> protocolMaxMsgSize example_env"
    and d: "Decode_PeerProgress (progress_msg pr) = Some pr" for pr
    by (simp_all add: examples)
  have "Event_Epoch (LastBlockAtropos progress_ahead) < Epoch progress_ahead"
    by (simp add: Event_Epoch_def progress_ahead_def)
  moreover have "\<not> Event_Epoch (LastBlockAtropos progress_level) < Epoch progress_level"
    by (simp add: Event_Epoch_def progress_level_def)
  ultimately show ?thesis
    using handleMsg_progress_classifies
        [of "progress_msg progress_ahead" example_env progress_ahead opera_peer "[]"]
      handleMsg_progress_classifies
        [of "progress_msg progress_level" example_env progress_level opera_peer "[]"]
    by (simp add: c s d)
qed

section \<open>One record per session\<close>

text \<open>
  C5. For a session that starts with a status that is not terminal, and whose
  handshake does not make it terminal: the output channel gets at most one record;
  it gets exactly one, the session's, when and only when the session ends with a
  terminal status (\<open>PeerUseless\<close> or \<open>PeerEvil\<close>), which is when \<open>handle\<close> returns
  no error; a session that ends with an error has sent nothing. In every round of
  the message loop, a message that makes the status terminal ends the loop: the
  session and the stream it returns are those right after that message, so no
  further message is read and the status is not assigned again.
\<close>

theorem one_record_per_session:
  assumes "handle e b p rw = (res, b', p', rw')"
      and "\<not> terminal (Status p)"
      and "\<not> terminal (Status (fst (snd (Handshake e p rw))))"
  shows "(output_ch b' = output_ch b \<or> output_ch b' = output_ch b @ [result_of p']) \<and>
     (terminal (Status p') \<longleftrightarrow> output_ch b' = output_ch b @ [result_of p']) \<and>
     (terminal (Status p') \<longleftrightarrow> res = None) \<and>
     (res \<noteq> None \<longrightarrow> output_ch b' = output_ch b) \<and>
     (\<forall>b1 p1 rw1 p2 rw2.
        handleMsg e p1 rw1 = (None, p2, rw2) \<and> terminal (Status p2) \<longrightarrow>
          handle_loop e b1 p1 rw1 =
            (None, b1\<lparr>output_ch := output_ch b1 @ [result_of p2]\<rparr>, p2, rw2))"
proof -
  have stop: "handle_loop e b1 p1 rw1 =
      (None, b1\<lparr>output_ch := output_ch b1 @ [result_of p2]\<rparr>, p2, rw2)"
    if "handleMsg e p1 rw1 = (None, p2, rw2) \<and> terminal (Status p2)" for b1 p1 rw1 p2 rw2
    using that by (simp add: handle_loop_terminal)
  show ?thesis
  proof (cases res)
    case None
    with handle_outcome [OF assms(1)]
    have "terminal (Status p')" "b' = b\<lparr>output_ch := output_ch b @ [result_of p']\<rparr>"
      by simp_all
    with None stop show ?thesis by simp
  next
    case (Some err)
    with handle_outcome [OF assms(1)] have "b' = b" by simp
    moreover from Some assms have "\<not> terminal (Status p')"
      by (auto dest: handle_error_status)
    ultimately show ?thesis using Some stop by simp
  qed
qed

theorem one_record_per_session_witness:
  "handle example_env empty_backend opera_peer evil_stream =
     (None,
      empty_backend\<lparr>output_ch :=
        [\<lparr>N = ''enode://a1@10.0.0.1:5050'', Info = Some \<lparr>Blockheight = ''1234''\<rparr>\<rparr>]\<rparr>,
      opera_peer\<lparr>progress := progress_ahead, Status := PeerEvil,
        Disconnected := Some DiscUselessPeer\<rparr>,
      [plain_msg HandshakeMsg 70]) \<and>
   terminal PeerEvil \<and>
   handle example_env empty_backend opera_peer failing_stream =
     (Some (errResp ErrExtraStatusMsg), empty_backend,
      opera_peer\<lparr>Disconnected := Some DiscUselessPeer\<rparr>, []) \<and>
   \<not> terminal PeerUnknown"
proof -
  have fresh: "\<not> terminal (Status opera_peer)"
    and hs: "\<not> terminal (Status (fst (snd (Handshake example_env opera_peer rw))))" for rw
    by (simp_all add: terminal_def examples)
  from one_record_per_session
    [OF evil_stream_run fresh hs, THEN conjunct2, THEN conjunct2, THEN conjunct1]
  have "terminal PeerEvil" by simp
  moreover from one_record_per_session
    [OF failing_stream_run fresh hs, THEN conjunct2, THEN conjunct2, THEN conjunct1]
  have "\<not> terminal PeerUnknown" by (simp add: opera_peer_def)
  ultimately show ?thesis
    using evil_stream_run failing_stream_run by simp
qed

section \<open>A second status message\<close>

text \<open>
  C6, as stated, fails for a status message that is too large: the size check comes
  first and answers \<open>ErrMsgTooLarge\<close>.
\<close>

theorem extra_status_oversized_counterexample:
  "Code (plain_msg HandshakeMsg 12000000) = HandshakeMsg \<and>
   handleMsg example_env opera_peer [plain_msg HandshakeMsg 12000000] =
     (Some (errResp ErrMsgTooLarge), opera_peer, []) \<and>
   errResp ErrMsgTooLarge \<noteq> errResp ErrExtraStatusMsg"
  by (simp add: handleMsg_def ReadMsg_def msg_codes examples)

text \<open>
  C6, amended. A status message that arrives after the handshake and passes the size
  check makes \<open>handleMsg\<close> return \<open>ErrExtraStatusMsg\<close>; the message loop ends with
  that error and sends nothing to the output channel; a session whose handshake has
  just completed ends with that error, unregistered and disconnected, the backend as
  it was; and every session that ends with an error leaves the backend as it was.
\<close>

theorem extra_status_rejected:
  assumes "Code m = HandshakeMsg" and "Size m \<le> protocolMaxMsgSize e"
  shows "handleMsg e p (m # ms) = (Some (errResp ErrExtraStatusMsg), p, ms) \<and>
     handle_loop e b p (m # ms) = (Some (errResp ErrExtraStatusMsg), b, p, ms) \<and>
     ((Trusted p0 \<or> \<not> Banned e (Node p0) \<and> Contains (ToLower (Name p0)) ''opera'') \<and>
      Handshake e p0 rw0 = (None, p, m # ms) \<and> peer_id p \<notin> peers b \<longrightarrow>
        handle e b p0 rw0 =
          (Some (errResp ErrExtraStatusMsg), b, Disconnect p DiscUselessPeer, ms)) \<and>
     (\<forall>b1 p1 rw1 err b' p' rw'.
        handle e b1 p1 rw1 = (Some err, b', p', rw') \<longrightarrow>
          b' = b1 \<and> Disconnected p' = Some DiscUselessPeer)"
proof -
  from assms have hm: "handleMsg e p (m # ms) = (Some (errResp ErrExtraStatusMsg), p, ms)"
    by (simp add: handleMsg_def ReadMsg_def msg_codes)
  have lp: "handle_loop e b' p (m # ms) = (Some (errResp ErrExtraStatusMsg), b', p, ms)" for b'
    using hm by (rule handle_loop_error)
  have "handle e b p0 rw0 =
      (Some (errResp ErrExtraStatusMsg), b, Disconnect p DiscUselessPeer, ms)"
    if "Trusted p0 \<or> \<not> Banned e (Node p0) \<and> Contains (ToLower (Name p0)) ''opera''"
      and "Handshake e p0 rw0 = (None, p, m # ms)" and "peer_id p \<notin> peers b"
    using that
    by (auto simp: handle_unfold handle_session_def RegisterPeer_def lp unregister_registered)
  moreover have "b' = b1 \<and> Disconnected p' = Some DiscUselessPeer"
    if "handle e b1 p1 rw1 = (Some err, b', p', rw')" for b1 p1 rw1 err b' p' rw'
    using handle_outcome [OF that] by simp
  ultimately show ?thesis using hm lp by blast
qed

theorem extra_status_rejected_witness:
  "handle example_env empty_backend opera_peer [plain_msg HandshakeMsg 70] =
     (Some (errResp ErrExtraStatusMsg), empty_backend,
      opera_peer\<lparr>Disconnected := Some DiscUselessPeer\<rparr>, []) \<and>
   output_ch empty_backend = []"
proof -
  have "Code (plain_msg HandshakeMsg 70) = HandshakeMsg"
    and "Size (plain_msg HandshakeMsg 70) \<le> protocolMaxMsgSize example_env"
    and "\<not> Banned example_env (Node opera_peer)"
    and "Contains (ToLower (Name opera_peer)) ''opera''"
    and "Handshake example_env opera_peer [plain_msg HandshakeMsg 70] =
           (None, opera_peer, [plain_msg HandshakeMsg 70])"
    and "peer_id opera_peer \<notin> peers empty_backend"
    by (simp_all add: examples Name_def ToLower_def lower_byte_def)
  then show ?thesis
    using extra_status_rejected
      [of "plain_msg HandshakeMsg 70" example_env opera_peer "[]" empty_backend opera_peer
        "[plain_msg HandshakeMsg 70]"]
    by (simp add: Disconnect_def empty_backend_def NewProbeBackend_def)
qed

section \<open>Streamed chunks\<close>

text \<open>
  C7. For an \<open>EventsStreamResponse\<close> that passes the size check and decodes to a
  chunk: a chunk with both identifiers and events, and a chunk with neither, make
  \<open>handleMsg\<close> return an error; the message loop then ends with that error and
  sends nothing to the output channel; and the session whose loop reads this message,
  right after its handshake or after earlier messages, ends in \<open>handle\<close> with that
  error, unregistered and disconnected, the backend as it was before the session. A
  chunk with events only sets the status to \<open>PeerUseless\<close>, and the loop sends the
  session's record. Every session that ends with an error leaves the backend as it
  was and is disconnected.
\<close>

theorem stream_chunk_contents:
  assumes "Code m = EventsStreamResponse"
      and "Size m \<le> protocolMaxMsgSize e"
      and "Decode_dagChunk m = Some chunk"
  shows "(IDs chunk \<noteq> [] \<and> Events chunk \<noteq> [] \<longrightarrow>
        handleMsg e p (m # ms) = (Some ErrExpectedEither, p, ms) \<and>
        handle_loop e b p (m # ms) = (Some ErrExpectedEither, b, p, ms)) \<and>
     (IDs chunk = [] \<and> Events chunk = [] \<longrightarrow>
        handleMsg e p (m # ms) = (Some ErrExpectedEither, p, ms) \<and>
        handle_loop e b p (m # ms) = (Some ErrExpectedEither, b, p, ms)) \<and>
     (IDs chunk = [] \<and> Events chunk \<noteq> [] \<longrightarrow>
        handleMsg e p (m # ms) = (None, p\<lparr>Status := PeerUseless\<rparr>, ms) \<and>
        handle_loop e b p (m # ms) =
          (None, b\<lparr>output_ch := output_ch b @ [result_of (p\<lparr>Status := PeerUseless\<rparr>)]\<rparr>,
           p\<lparr>Status := PeerUseless\<rparr>, ms)) \<and>
     ((IDs chunk = [] \<longleftrightarrow> Events chunk = []) \<and>
      (Trusted p0 \<or> \<not> Banned e (Node p0) \<and> Contains (ToLower (Name p0)) ''opera'') \<and>
      Handshake e p0 rw0 = (None, p, m # ms) \<and> peer_id p \<notin> peers b \<longrightarrow>
        handle e b p0 rw0 = (Some ErrExpectedEither, b, Disconnect p DiscUselessPeer, ms)) \<and>
     ((IDs chunk = [] \<longleftrightarrow> Events chunk = []) \<and>
      (Trusted p0 \<or> \<not> Banned e (Node p0) \<and> Contains (ToLower (Name p0)) ''opera'') \<and>
      Handshake e p0 rw0 = (None, p1, rw1) \<and> peer_id p1 \<notin> peers b \<and>
      handle_loop e (b\<lparr>peers := insert (peer_id p1) (peers b)\<rparr>) p1 rw1 =
        handle_loop e (b\<lparr>peers := insert (peer_id p1) (peers b)\<rparr>) p (m # ms) \<longrightarrow>
        handle e b p0 rw0 = (Some ErrExpectedEither, b, Disconnect p DiscUselessPeer, ms)) \<and>
     (\<forall>b1 q1 s1 err b' p' rw'.
        handle e b1 q1 s1 = (Some err, b', p', rw') \<longrightarrow>
          b' = b1 \<and> Disconnected p' = Some DiscUselessPeer)"
proof -
  have bad: "handleMsg e p (m # ms) = (Some ErrExpectedEither, p, ms)"
    if "IDs chunk = [] \<longleftrightarrow> Events chunk = []"
    using that assms by (cases "IDs chunk = []") (simp_all add: handleMsg_def ReadMsg_def msg_codes)
  have bad_loop: "handle_loop e b' p (m # ms) = (Some ErrExpectedEither, b', p, ms)"
    if "IDs chunk = [] \<longleftrightarrow> Events chunk = []" for b'
    using bad [OF that] by (rule handle_loop_error)
  have only_events: "handleMsg e p (m # ms) = (None, p\<lparr>Status := PeerUseless\<rparr>, ms)"
    if "IDs chunk = [] \<and> Events chunk \<noteq> []"
    using that assms by (simp add: handleMsg_def ReadMsg_def msg_codes)
  have only_events_loop: "handle_loop e b p (m # ms) =
      (None, b\<lparr>output_ch := output_ch b @ [result_of (p\<lparr>Status := PeerUseless\<rparr>)]\<rparr>,
       p\<lparr>Status := PeerUseless\<rparr>, ms)"
    if "IDs chunk = [] \<and> Events chunk \<noteq> []"
    using only_events [OF that] by (rule handle_loop_terminal) (simp add: terminal_def)
  have reached: "handle e b p0 rw0 = (Some ErrExpectedEither, b, Disconnect p DiscUselessPeer, ms)"
    if "IDs chunk = [] \<longleftrightarrow> Events chunk = []"
      and "Trusted p0 \<or> \<not> Banned e (Node p0) \<and> Contains (ToLower (Name p0)) ''opera''"
      and "Handshake e p0 rw0 = (None, p1, rw1)" and "peer_id p1 \<notin> peers b"
      and "handle_loop e (b\<lparr>peers := insert (peer_id p1) (peers b)\<rparr>) p1 rw1 =
        handle_loop e (b\<lparr>peers := insert (peer_id p1) (peers b)\<rparr>) p (m # ms)"
    for p1 rw1
    using that
    by (auto simp: handle_unfold handle_session_def RegisterPeer_def bad_loop
        unregister_registered)
  have first: "handle e b p0 rw0 = (Some ErrExpectedEither, b, Disconnect p DiscUselessPeer, ms)"
    if "IDs chunk = [] \<longleftrightarrow> Events chunk = []"
      and "Trusted p0 \<or> \<not> Banned e (Node p0) \<and> Contains (ToLower (Name p0)) ''opera''"
      and "Handshake e p0 rw0 = (None, p, m # ms)" and "peer_id p \<notin> peers b"
    using that by (intro reached [of p "m # ms"]) simp_all
  have torn: "b' = b1 \<and> Disconnected p' = Some DiscUselessPeer"
    if "handle e b1 q1 s1 = (Some err, b', p', rw')" for b1 q1 s1 err b' p' rw'
    using handle_outcome [OF that] by simp
  show ?thesis
  proof (intro conjI impI allI)
    qed (use bad bad_loop only_events only_events_loop reached first torn in \<open>(blast | simp)+\<close>)
qed

theorem stream_chunk_contents_witness:
  "handleMsg example_env opera_peer [chunk_msg 300 both_chunk] =
     (Some ErrExpectedEither, opera_peer, []) \<and>
   handleMsg example_env opera_peer [chunk_msg 300 empty_chunk] =
     (Some ErrExpectedEither, opera_peer, []) \<and>
   handle example_env empty_backend opera_peer [chunk_msg 300 both_chunk] =
     (Some ErrExpectedEither, empty_backend,
      opera_peer\<lparr>Disconnected := Some DiscUselessPeer\<rparr>, []) \<and>
   handle example_env empty_backend opera_peer
       [plain_msg EvmTxsMsg 100, chunk_msg 300 empty_chunk] =
     (Some ErrExpectedEither, empty_backend,
      opera_peer\<lparr>Disconnected := Some DiscUselessPeer\<rparr>, []) \<and>
   handle_loop example_env empty_backend opera_peer [chunk_msg 300 events_chunk] =
     (None,
      empty_backend\<lparr>output_ch :=
        [\<lparr>N = ''enode://a1@10.0.0.1:5050'', Info = Some \<lparr>Blockheight = ''0''\<rparr>\<rparr>]\<rparr>,
      opera_peer\<lparr>Status := PeerUseless\<rparr>, [])"
proof -
  let ?b = "empty_backend\<lparr>peers := insert (peer_id opera_peer) (peers empty_backend)\<rparr>"
  have m: "Code (chunk_msg 300 ch) = EventsStreamResponse"
    "Size (chunk_msg 300 ch) \<le> protocolMaxMsgSize example_env"
    "Decode_dagChunk (chunk_msg 300 ch) = Some ch" for ch
    by (simp_all add: examples)
  have both: "IDs both_chunk \<noteq> [] \<and> Events both_chunk \<noteq> []"
    and both': "IDs both_chunk = [] \<longleftrightarrow> Events both_chunk = []"
    and neither: "IDs empty_chunk = [] \<and> Events empty_chunk = []"
    and neither': "IDs empty_chunk = [] \<longleftrightarrow> Events empty_chunk = []"
    and only: "IDs events_chunk = [] \<and> Events events_chunk \<noteq> []"
    by (simp_all add: both_chunk_def empty_chunk_def events_chunk_def)
  have pre: "Trusted opera_peer \<or>
      \<not> Banned example_env (Node opera_peer) \<and> Contains (ToLower (Name opera_peer)) ''opera''"
    by (simp add: examples Name_def ToLower_def lower_byte_def)
  have hs: "Handshake example_env opera_peer rw = (None, opera_peer, rw)" for rw
    by (simp add: example_env_def)
  have reg: "peer_id opera_peer \<notin> peers empty_backend"
    by (simp add: examples)
  have "handleMsg example_env opera_peer [plain_msg EvmTxsMsg 100, chunk_msg 300 empty_chunk] =
      (None, opera_peer, [chunk_msg 300 empty_chunk])"
    by (simp add: handleMsg_def ReadMsg_def msg_codes examples)
  then have mid: "handle_loop example_env ?b opera_peer
        [plain_msg EvmTxsMsg 100, chunk_msg 300 empty_chunk] =
      handle_loop example_env ?b opera_peer [chunk_msg 300 empty_chunk]"
    by (rule handle_loop_continue) (simp add: terminal_def opera_peer_def)
  note t_both = stream_chunk_contents [OF m, of both_chunk opera_peer "[]" empty_backend
      opera_peer "[chunk_msg 300 both_chunk]"]
  note t_neither = stream_chunk_contents [OF m, of empty_chunk opera_peer "[]" empty_backend
      opera_peer "[plain_msg EvmTxsMsg 100, chunk_msg 300 empty_chunk]" opera_peer
      "[plain_msg EvmTxsMsg 100, chunk_msg 300 empty_chunk]"]
  note t_only = stream_chunk_contents [OF m, of events_chunk opera_peer "[]" empty_backend]
  from t_both both have 1: "handleMsg example_env opera_peer [chunk_msg 300 both_chunk] =
      (Some ErrExpectedEither, opera_peer, [])"
    by blast
  from t_neither neither have 2: "handleMsg example_env opera_peer [chunk_msg 300 empty_chunk] =
      (Some ErrExpectedEither, opera_peer, [])"
    by blast
  from t_both both' pre hs reg
  have 3: "handle example_env empty_backend opera_peer [chunk_msg 300 both_chunk] =
      (Some ErrExpectedEither, empty_backend, Disconnect opera_peer DiscUselessPeer, [])"
    by blast
  from t_neither neither' pre hs reg mid
  have 4: "handle example_env empty_backend opera_peer
        [plain_msg EvmTxsMsg 100, chunk_msg 300 empty_chunk] =
      (Some ErrExpectedEither, empty_backend, Disconnect opera_peer DiscUselessPeer, [])"
    by blast
  from t_only only
  have 5: "handle_loop example_env empty_backend opera_peer [chunk_msg 300 events_chunk] =
      (None,
       empty_backend\<lparr>output_ch := output_ch empty_backend @
         [result_of (opera_peer\<lparr>Status := PeerUseless\<rparr>)]\<rparr>,
       opera_peer\<lparr>Status := PeerUseless\<rparr>, [])"
    by blast
  from 1 2 3 4 5 show ?thesis
    by (simp add: Disconnect_def result_of_def examples)
qed

section \<open>Size and count limits\<close>

text \<open>
  C8, as stated, fails for a streamed chunk, which carries two lists and is decoded
  but never passed to \<open>checkLenLimits\<close>: a chunk with no item is rejected with the
  plain error of the chunk's own check, not with \<open>ErrEmptyMessage\<close>, and a chunk
  with more events than \<open>hardLimitItems\<close> is accepted.
\<close>

theorem chunk_count_limits_counterexample:
  "length (IDs empty_chunk) + length (Events empty_chunk) = 0 \<and>
   handleMsg example_env opera_peer [chunk_msg 300 empty_chunk] =
     (Some ErrExpectedEither, opera_peer, []) \<and>
   ErrExpectedEither \<noteq> errResp ErrEmptyMessage \<and>
   hardLimitItems example_env < int (length (Events large_chunk)) \<and>
   handleMsg example_env opera_peer [chunk_msg 2100000 large_chunk] =
     (None, opera_peer\<lparr>Status := PeerUseless\<rparr>, [])"
  by (simp add: handleMsg_def ReadMsg_def msg_codes examples empty_chunk_def large_chunk_def)

text \<open>
  C8, amended. A message whose encoded size exceeds \<open>protocolMaxMsgSize\<close> is
  rejected with \<open>ErrMsgTooLarge\<close>, whatever its code. \<open>checkLenLimits\<close> answers
  \<open>ErrEmptyMessage\<close> to a count of zero and \<open>ErrMsgTooLarge\<close> to a count above
  \<open>hardLimitItems\<close> (a cap that is not negative), and so does \<open>handleMsg\<close> for the
  messages whose decoded list it passes to \<open>checkLenLimits\<close>: \<open>EventsMsg\<close>,
  \<open>NewEventIDsMsg\<close> and \<open>GetEventsMsg\<close>.
\<close>

theorem size_and_count_limits:
  "(protocolMaxMsgSize e < Size m \<longrightarrow>
      handleMsg e p (m # ms) = (Some (errResp ErrMsgTooLarge), p, ms)) \<and>
   checkLenLimits e 0 = Some (errResp ErrEmptyMessage) \<and>
   (0 \<le> hardLimitItems e \<and> hardLimitItems e < n \<longrightarrow>
      checkLenLimits e n = Some (errResp ErrMsgTooLarge)) \<and>
   (Size m \<le> protocolMaxMsgSize e \<and>
    (Code m = EventsMsg \<and> Decode_EventPayloads m = Some xs \<and> k = length xs \<or>
     Code m = NewEventIDsMsg \<and> Decode_Events m = Some ys \<and> k = length ys \<or>
     Code m = GetEventsMsg \<and> Decode_Events m = Some ys \<and> k = length ys) \<longrightarrow>
      (k = 0 \<longrightarrow> handleMsg e p (m # ms) = (Some (errResp ErrEmptyMessage), p, ms)) \<and>
      (0 \<le> hardLimitItems e \<and> hardLimitItems e < int k \<longrightarrow>
         handleMsg e p (m # ms) = (Some (errResp ErrMsgTooLarge), p, ms)))"
proof (intro conjI impI)
  assume "protocolMaxMsgSize e < Size m"
  then show "handleMsg e p (m # ms) = (Some (errResp ErrMsgTooLarge), p, ms)"
    by (rule handleMsg_oversized)
next
  show "checkLenLimits e 0 = Some (errResp ErrEmptyMessage)"
    by (simp add: checkLenLimits_def)
next
  assume "0 \<le> hardLimitItems e \<and> hardLimitItems e < n"
  then show "checkLenLimits e n = Some (errResp ErrMsgTooLarge)"
    by (simp add: checkLenLimits_def)
next
  assume a: "Size m \<le> protocolMaxMsgSize e \<and>
    (Code m = EventsMsg \<and> Decode_EventPayloads m = Some xs \<and> k = length xs \<or>
     Code m = NewEventIDsMsg \<and> Decode_Events m = Some ys \<and> k = length ys \<or>
     Code m = GetEventsMsg \<and> Decode_Events m = Some ys \<and> k = length ys)"
    and "k = 0"
  then show "handleMsg e p (m # ms) = (Some (errResp ErrEmptyMessage), p, ms)"
    by (auto simp: handleMsg_def ReadMsg_def msg_codes checkLenLimits_def)
next
  assume a: "Size m \<le> protocolMaxMsgSize e \<and>
    (Code m = EventsMsg \<and> Decode_EventPayloads m = Some xs \<and> k = length xs \<or>
     Code m = NewEventIDsMsg \<and> Decode_Events m = Some ys \<and> k = length ys \<or>
     Code m = GetEventsMsg \<and> Decode_Events m = Some ys \<and> k = length ys)"
    and "0 \<le> hardLimitItems e \<and> hardLimitItems e < int k"
  then show "handleMsg e p (m # ms) = (Some (errResp ErrMsgTooLarge), p, ms)"
    by (auto simp: handleMsg_def ReadMsg_def msg_codes checkLenLimits_def)
qed

theorem size_and_count_limits_witness:
  "handleMsg example_env opera_peer [plain_msg EvmTxsMsg 12000000] =
     (Some (errResp ErrMsgTooLarge), opera_peer, []) \<and>
   handleMsg example_env opera_peer [events_msg 1 []] =
     (Some (errResp ErrEmptyMessage), opera_peer, []) \<and>
   handleMsg example_env opera_peer [events_msg 2100000 (replicate 20001 [192])] =
     (Some (errResp ErrMsgTooLarge), opera_peer, []) \<and>
   checkLenLimits example_env 20001 = Some (errResp ErrMsgTooLarge)"
proof -
  have big: "protocolMaxMsgSize example_env < Size (plain_msg EvmTxsMsg 12000000)"
    by (simp add: examples)
  have ev: "Size (events_msg 1 xs) \<le> protocolMaxMsgSize example_env"
    "Size (events_msg 2100000 xs) \<le> protocolMaxMsgSize example_env"
    "Code (events_msg n xs) = EventsMsg" "Decode_EventPayloads (events_msg n xs) = Some xs"
    for n xs
    by (simp_all add: examples events_msg_def)
  have cap: "0 \<le> hardLimitItems example_env" "hardLimitItems example_env = 20000"
    by (simp_all add: examples)
  show ?thesis
    using size_and_count_limits
        [of example_env "plain_msg EvmTxsMsg 12000000" opera_peer "[]" 20001 "[]" 0 "[]"]
      size_and_count_limits
        [of example_env "events_msg 1 []" opera_peer "[]" 20001 "[]" 0 "[]"]
      size_and_count_limits
        [of example_env "events_msg 2100000 (replicate 20001 [192])" opera_peer "[]" 20001
          "replicate 20001 [192]" 20001 "[]"]
    by (simp add: big ev cap)
qed

section \<open>Error paths of message handling\<close>

text \<open>
  C9. Whenever \<open>handleMsg\<close> returns an error, the session is as it was before the
  call: its status and its stored progress are unchanged.
\<close>

theorem handleMsg_error_frame:
  assumes "handleMsg e p rw = (Some err, p', rw')"
  shows "Status p' = Status p \<and> progress p' = progress p \<and> p' = p"
  using assms
  by (auto simp: handleMsg_def ReadMsg_def Let_def split: if_splits option.splits list.splits)

theorem handleMsg_error_frame_witness:
  "handleMsg example_env opera_peer [plain_msg ProgressMsg 45] =
     (Some (errResp ErrDecode), opera_peer, []) \<and>
   Status opera_peer = PeerUnknown"
proof -
  have run: "handleMsg example_env opera_peer [plain_msg ProgressMsg 45] =
     (Some (errResp ErrDecode), snd (handleMsg example_env opera_peer [plain_msg ProgressMsg 45]))"
    by (simp add: handleMsg_def ReadMsg_def msg_codes examples)
  obtain p' rw' where
    r: "handleMsg example_env opera_peer [plain_msg ProgressMsg 45] = (Some (errResp ErrDecode), p', rw')"
    using run by (metis prod.collapse)
  from handleMsg_error_frame [OF r] have "p' = opera_peer" by simp
  moreover from r have "rw' = []" by (rule handleMsg_rest)
  ultimately show ?thesis using r by (simp add: opera_peer_def)
qed

section \<open>The catalogue is a copy\<close>

text \<open>
  C10. The goroutine of \<^verbatim>\<open>Start\<close> allocates a new map and copies the caller's map
  into it before it receives anything; whatever it receives afterwards, every map
  that existed before, the caller's among them, holds what it held, and every call
  of \<^verbatim>\<open>onUpdatedSet\<close> is given the new map.
\<close>

theorem Start_copies_input:
  assumes "input < length h"
  shows "Start_goroutine f h input [] = \<lparr>heap = h @ [h ! input], calls = []\<rparr> \<and>
     take (length h) (heap (Start_goroutine f h input evs)) = h \<and>
     heap (Start_goroutine f h input evs) ! input = h ! input \<and>
     (\<forall>c \<in> set (calls (Start_goroutine f h input evs)).
        fst (snd c) = length h \<and> fst (snd c) \<noteq> input)"
proof -
  let ?r = "\<lparr>heap = h @ [h ! input], calls = []\<rparr>"
  from assms have start: "Start_goroutine f h input evs = aggregate f (length h) 0 evs ?r"
    for evs
    by (simp add: Start_goroutine_def Let_def nth_append)
  have frame: "take (length h) (heap (aggregate f (length h) 0 evs ?r)) = h"
    "length (heap (aggregate f (length h) 0 evs ?r)) = Suc (length h)"
    using aggregate_heap_frame [of ?r "length h" f 0 evs] by simp_all
  have "heap (aggregate f (length h) 0 evs ?r) ! input
      = take (length h) (heap (aggregate f (length h) 0 evs ?r)) ! input"
    using assms by simp
  with frame have same: "heap (aggregate f (length h) 0 evs ?r) ! input = h ! input"
    by simp
  have "\<forall>c \<in> set (calls (aggregate f (length h) 0 evs ?r)). fst (snd c) = length h"
    by (rule aggregate_calls_map) simp
  with assms frame same start show ?thesis
    by auto
qed

theorem Start_copies_input_witness:
  "heap (Start_goroutine add_node [one_node] 0
      [RecvNode \<lparr>N = ''n2'', Info = None\<rparr>, RecvDone]) ! 0 = one_node \<and>
   one_node ''n2'' = None \<and>
   (heap (Start_goroutine add_node [one_node] 0
      [RecvNode \<lparr>N = ''n2'', Info = None\<rparr>, RecvDone]) ! 1) ''n2'' =
     Some \<lparr>N = ''n2'', Info = None\<rparr>"
proof -
  have "(0::nat) < length [one_node]" by simp
  from Start_copies_input [OF this, of add_node "[RecvNode \<lparr>N = ''n2'', Info = None\<rparr>, RecvDone]"]
  have "heap (Start_goroutine add_node [one_node] 0
      [RecvNode \<lparr>N = ''n2'', Info = None\<rparr>, RecvDone]) ! 0 = one_node"
    by simp
  then show ?thesis
    by (simp add: Start_goroutine_def Let_def add_node_def one_node_def)
qed

end
